theory Spec2Isabelle
  imports Main "HOL-Library.Sublist"
begin

section \<open>The DRHP downloader: a model of download\_drhp.py\<close>

text \<open>
  The script loads the set of URLs it has archived before, fetches one listing page,
  selects the links that look like draft offer documents, downloads and uploads each
  one it has not seen, and writes the set back. The model keeps the script's functions
  and their names. What the script does to the outside is made explicit:
  \<^item> the state file is a field of the \<open>world\<close>;
  \<^item> every request, upload, pause and console line is appended to the world's
    \<open>trace\<close>, in the order in which the script performs it;
  \<^item> what the network, the credential file and the libraries answer is read from an
    environment \<open>env\<close>;
  \<^item> an exception is a value \<open>Inl e\<close>; a function that may raise after it has acted on
    the world returns the world it reached together with its result.
  The failures modelled are those of the network, of the credential file, of the
  upload, of reading the state file and of resolving a link. Writing to the console
  and writing the state file are taken to succeed.
\<close>

subsection \<open>Configuration constants\<close>

definition SEBI_URL :: string where
  "SEBI_URL = ''https://www.sebi.gov.in/filings/public-issues.html''"

definition OUT_DIR :: string where
  "OUT_DIR = ''drhps''"

definition KEYWORDS :: "string list" where
  "KEYWORDS = [''draft'', ''drhp'', ''red-herring'', ''red herring'', ''offer document'']"

subsection \<open>Exceptions, JSON documents and Python values\<close>

text \<open>
  Only subclasses of Python's \<open>Exception\<close> occur. \<open>JSONDecodeError\<close>,
  \<open>UnicodeDecodeError\<close> and \<open>ValueError\<close> are what \<open>json.load\<close> raises on text that is
  not JSON, on bytes that are not text and on an integer literal that is too long;
  \<open>TypeError\<close> is what \<open>set\<close> raises; \<open>ValueError\<close> is also what \<open>urljoin\<close> raises.
  Every other exception (a failed request, an HTTP error status, a missing key file, a
  failed upload) is \<open>Failure\<close> with its message.
\<close>

datatype exn = JSONDecodeError | UnicodeDecodeError | ValueError | TypeError | Failure string

text \<open>
  A JSON document as \<open>json.load\<close> returns it. Numbers are integers here; numbers with
  a fraction or an exponent are outside the model.
\<close>

datatype json =
    JNull
  | JBool bool
  | JNum int
  | JStr string
  | JArr "json list"
  | JObj "(string \<times> json) list"

text \<open>
  The elements a Python set built from such a document can hold. Python's \<open>True\<close> and
  \<open>1\<close> (and \<open>False\<close> and \<open>0\<close>) are equal and hash alike, so they are one element
  of a set; the model writes both as \<open>PNum\<close>.
\<close>

datatype pyatom = PNone | PNum int | PStr string

text \<open>
  The contents of the state file, by what \<open>json.load(open(STATE_FILE))\<close> does with
  them: it raises an exception, or it returns a JSON document.
\<close>

datatype file_content = Rejected exn | Document json

subsection \<open>The world and the environment\<close>

datatype line =
    Loaded_state nat
  | Downloading string
  | Saved string
  | Uploaded_to_Drive string
  | Error_with string exn
  | New_PDFs nat

datatype event =
    Stdout line
  | Http_get string
  | Credentials_read
  | Drive_upload string string
  | Sleep nat

record world =
  state_file :: "file_content option"
  trace :: "event list"

text \<open>A hyperlink of the listing page: its \<open>href\<close> attribute and its visible text.\<close>

record anchor =
  anchor_href :: string
  anchor_text :: string

text \<open>
  The environment. \<open>listing\<close> is the answer to the request for the listing page, parsed
  into its hyperlinks, or the exception of \<open>requests.get\<close> or \<open>raise_for_status\<close>.
  \<open>credentials\<close> is the exception of reading the key file, if any. The outcome of a
  download or an upload may depend on everything that happened before it, so it is a
  function of the trace. \<open>urljoin\<close>, \<open>url_path\<close> (the path component that
  \<open>urlparse\<close> returns) and \<open>sha1_hex\<close> are the library functions of those names, and
  \<open>iter_order\<close> is the order in which Python iterates over a set. \<open>urljoin\<close> raises
  an exception on a reference it cannot parse, such as one with an unbalanced bracket
  in its host. \<open>url_path\<close> is applied only to a URL that \<open>urljoin\<close> has returned.
\<close>

record env =
  listing :: "exn + anchor list"
  credentials :: "exn option"
  download_exn :: "event list \<Rightarrow> string \<Rightarrow> exn option"
  upload_exn :: "event list \<Rightarrow> string \<Rightarrow> exn option"
  urljoin :: "string \<Rightarrow> string \<Rightarrow> exn + string"
  url_path :: "string \<Rightarrow> string"
  sha1_hex :: "string \<Rightarrow> string"
  iter_order :: "pyatom set \<Rightarrow> pyatom list"

definition emit :: "event \<Rightarrow> world \<Rightarrow> world" where
  "emit e w = w\<lparr>trace := trace w @ [e]\<rparr>"

subsection \<open>Drive setup\<close>

definition get_drive :: "env \<Rightarrow> world \<Rightarrow> world \<times> (exn + unit)" where
  "get_drive E w =
     (let w1 = emit Credentials_read w in
      case credentials E of
        Some e \<Rightarrow> (w1, Inl e)
      | None \<Rightarrow> (w1, Inr ()))"

subsection \<open>The state store\<close>

definition json_load :: "file_content \<Rightarrow> exn + json" where
  "json_load c = (case c of Rejected e \<Rightarrow> Inl e | Document j \<Rightarrow> Inr j)"

text \<open>
  \<open>hashable\<close> is the element a value becomes in a set; lists and dicts are not hashable.
\<close>

fun hashable :: "json \<Rightarrow> pyatom option" where
  "hashable JNull = Some PNone"
| "hashable (JBool b) = Some (PNum (if b then 1 else 0))"
| "hashable (JNum n) = Some (PNum n)"
| "hashable (JStr s) = Some (PStr s)"
| "hashable (JArr xs) = None"
| "hashable (JObj kvs) = None"

text \<open>
  Python's \<open>set(x)\<close>: a list gives its elements, a dict its keys, a string its
  characters; \<open>None\<close>, a bool and a number are not iterable.
\<close>

fun py_set :: "json \<Rightarrow> exn + pyatom set" where
  "py_set (JArr xs) =
     (if list_all (\<lambda>x. hashable x \<noteq> None) xs
      then Inr (set (map (\<lambda>x. the (hashable x)) xs))
      else Inl TypeError)"
| "py_set (JObj kvs) = Inr (set (map (\<lambda>kv. PStr (fst kv)) kvs))"
| "py_set (JStr s) = Inr (set (map (\<lambda>c. PStr [c]) s))"
| "py_set JNull = Inl TypeError"
| "py_set (JBool b) = Inl TypeError"
| "py_set (JNum n) = Inl TypeError"

definition load_state :: "world \<Rightarrow> exn + pyatom set" where
  "load_state w =
     (case state_file w of
        None \<Rightarrow> Inr {}
      | Some c \<Rightarrow> (case json_load c of Inl e \<Rightarrow> Inl e | Inr j \<Rightarrow> py_set j))"

fun json_of :: "pyatom \<Rightarrow> json" where
  "json_of PNone = JNull"
| "json_of (PNum n) = JNum n"
| "json_of (PStr s) = JStr s"

definition save_state :: "env \<Rightarrow> pyatom set \<Rightarrow> world \<Rightarrow> world" where
  "save_state E st w =
     w\<lparr>state_file := Some (Document (JArr (map json_of (iter_order E st))))\<rparr>"

subsection \<open>Link predicates\<close>

text \<open>\<open>str.lower\<close> on ASCII text.\<close>

definition lower_char :: "char \<Rightarrow> char" where
  "lower_char c =
     (let n = (of_char c :: nat) in if 65 \<le> n \<and> n \<le> 90 then char_of (n + 32) else c)"

definition lower :: "string \<Rightarrow> string" where
  "lower s = map lower_char s"

definition is_pdf_link :: "string \<Rightarrow> bool" where
  "is_pdf_link href \<longleftrightarrow>
     href \<noteq> [] \<and> (suffix ''.pdf'' (lower href) \<or> sublist ''.pdf?'' (lower href))"

definition likely_drhp_text :: "string \<Rightarrow> bool" where
  "likely_drhp_text t \<longleftrightarrow> t \<noteq> [] \<and> list_ex (\<lambda>k. sublist k (lower t)) KEYWORDS"

subsection \<open>File names\<close>

definition basename :: "string \<Rightarrow> string" where
  "basename p = rev (takeWhile (\<lambda>c. c \<noteq> CHR ''/'') (rev p))"

definition os_path_join :: "string \<Rightarrow> string \<Rightarrow> string" where
  "os_path_join a b =
     (if b \<noteq> [] \<and> hd b = CHR ''/'' then b
      else if a = [] \<or> last a = CHR ''/'' then a @ b
      else a @ ''/'' @ b)"

definition pdf_filename :: "env \<Rightarrow> string \<Rightarrow> string" where
  "pdf_filename E url =
     (let name0 = basename (url_path E url);
          name1 = (if name0 = [] then ''drhp.pdf'' else name0);
          name = takeWhile (\<lambda>c. c \<noteq> CHR ''?'') name1;
          h = take 8 (sha1_hex E url)
      in h @ ''_'' @ name)"

subsection \<open>Download and upload\<close>

definition download_file :: "env \<Rightarrow> string \<Rightarrow> string \<Rightarrow> world \<Rightarrow> world \<times> (exn + unit)" where
  "download_file E url outpath w =
     (let w1 = emit (Stdout (Downloading url)) w;
          w2 = emit (Http_get url) w1
      in case download_exn E (trace w2) url of
           Some e \<Rightarrow> (w2, Inl e)
         | None \<Rightarrow> (emit (Stdout (Saved outpath)) w2, Inr ()))"

definition upload_to_drive :: "env \<Rightarrow> string \<Rightarrow> string \<Rightarrow> world \<Rightarrow> world \<times> (exn + unit)" where
  "upload_to_drive E filepath filename w =
     (let w1 = emit (Drive_upload filepath filename) w
      in case upload_exn E (trace w1) filename of
           Some e \<Rightarrow> (w1, Inl e)
         | None \<Rightarrow> (emit (Stdout (Uploaded_to_Drive filename)) w1, Inr ()))"

subsection \<open>Main\<close>

text \<open>
  The loop that collects the candidates, lines 85 to 90. An exception of \<open>urljoin\<close>
  ends it.
\<close>

fun collect :: "env \<Rightarrow> anchor list \<Rightarrow> string list \<Rightarrow> exn + string list" where
  "collect E [] candidates = Inr candidates"
| "collect E (a # as) candidates =
     (case urljoin E SEBI_URL (anchor_href a) of
        Inl e \<Rightarrow> Inl e
      | Inr full \<Rightarrow>
          (let t = anchor_text a @ '' '' @ anchor_href a
           in collect E as
                (if is_pdf_link full \<and> likely_drhp_text t then candidates @ [full]
                 else candidates)))"

text \<open>The variables of the archiving loop, lines 93 to 106.\<close>

record run =
  world :: world
  state :: "pyatom set"
  new_count :: nat

definition process_candidate :: "env \<Rightarrow> string \<Rightarrow> run \<Rightarrow> run" where
  "process_candidate E url r =
     (if PStr url \<in> state r then r
      else
        let fname = pdf_filename E url;
            path = os_path_join OUT_DIR fname
        in case download_file E url path (world r) of
             (w1, Inl e) \<Rightarrow> r\<lparr>world := emit (Stdout (Error_with url e)) w1\<rparr>
           | (w1, Inr u) \<Rightarrow>
               (case upload_to_drive E path fname w1 of
                  (w2, Inl e) \<Rightarrow> r\<lparr>world := emit (Stdout (Error_with url e)) w2\<rparr>
                | (w2, Inr u') \<Rightarrow>
                    r\<lparr>world := emit (Sleep 1) w2,
                      state := insert (PStr url) (state r),
                      new_count := new_count r + 1\<rparr>))"

fun archive_all :: "env \<Rightarrow> string list \<Rightarrow> run \<Rightarrow> run" where
  "archive_all E [] r = r"
| "archive_all E (url # urls) r = archive_all E urls (process_candidate E url r)"

definition main :: "env \<Rightarrow> world \<Rightarrow> world \<times> (exn + unit)" where
  "main E w =
     (case load_state w of
        Inl e \<Rightarrow> (w, Inl e)
      | Inr st \<Rightarrow>
          let w1 = emit (Stdout (Loaded_state (card st))) w;
              w2 = emit (Http_get SEBI_URL) w1
          in case listing E of
               Inl e \<Rightarrow> (w2, Inl e)
             | Inr anchors \<Rightarrow>
                 (case collect E anchors [] of
                    Inl e \<Rightarrow> (w2, Inl e)
                  | Inr candidates \<Rightarrow>
                      (case get_drive E w2 of
                         (w3, Inl e) \<Rightarrow> (w3, Inl e)
                       | (w3, Inr drive) \<Rightarrow>
                           let r = archive_all E candidates
                                     \<lparr>world = w3, state = st, new_count = 0\<rparr>;
                               w4 = save_state E (state r) (world r)
                           in (emit (Stdout (New_PDFs (new_count r))) w4, Inr ()))))"

subsection \<open>Notions used to state the properties\<close>

text \<open>
  The two steps inside the \<open>try\<close> block, lines 100 and 101: the download, then the
  upload if the download raised nothing.
\<close>

definition attempt :: "env \<Rightarrow> string \<Rightarrow> world \<Rightarrow> world \<times> (exn + unit)" where
  "attempt E url w =
     (let fname = pdf_filename E url;
          path = os_path_join OUT_DIR fname
      in case download_file E url path w of
           (w1, Inl e) \<Rightarrow> (w1, Inl e)
         | (w1, Inr u) \<Rightarrow> upload_to_drive E path fname w1)"

text \<open>The events that \<open>w'\<close> has after those of \<open>w\<close>.\<close>

definition new_events :: "world \<Rightarrow> world \<Rightarrow> event list" where
  "new_events w w' = drop (length (trace w)) (trace w')"

text \<open>The console line that ends a successful upload.\<close>

definition uploaded_line :: "event \<Rightarrow> bool" where
  "uploaded_line ev = (case ev of Stdout (Uploaded_to_Drive f) \<Rightarrow> True | _ \<Rightarrow> False)"

text \<open>
  The events with which the download and the upload of a document start: the line
  \<open>Downloading\<close> is the first act of \<open>download_file\<close>, the upload request the first
  act of \<open>upload_to_drive\<close>.
\<close>

definition archiving_event :: "event \<Rightarrow> bool" where
  "archiving_event ev =
     (case ev of Drive_upload p f \<Rightarrow> True | Stdout (Downloading u) \<Rightarrow> True | _ \<Rightarrow> False)"

text \<open>The variables of \<open>main\<close> when the archiving loop starts, and the world it leaves.\<close>

definition start_run :: "world \<Rightarrow> pyatom set \<Rightarrow> run" where
  "start_run w st =
     \<lparr>world = w\<lparr>trace := trace w @
                 [Stdout (Loaded_state (card st)), Http_get SEBI_URL, Credentials_read]\<rparr>,
      state = st, new_count = 0\<rparr>"

definition finish_run :: "env \<Rightarrow> run \<Rightarrow> world" where
  "finish_run E r =
     (world r)\<lparr>state_file := Some (Document (JArr (map json_of (iter_order E (state r))))),
               trace := trace (world r) @ [Stdout (New_PDFs (new_count r))]\<rparr>"

text \<open>
  A state file is well formed when it holds what \<open>save_state\<close> writes for a set of
  URLs: a JSON array of strings.
\<close>

fun is_json_string :: "json \<Rightarrow> bool" where
  "is_json_string (JStr s) = True"
| "is_json_string j = False"

fun is_url_array :: "json \<Rightarrow> bool" where
  "is_url_array (JArr xs) = list_all is_json_string xs"
| "is_url_array j = False"

definition well_formed_state :: "file_content \<Rightarrow> bool" where
  "well_formed_state c = (case c of Rejected e \<Rightarrow> False | Document j \<Rightarrow> is_url_array j)"

text \<open>
  The documents that \<open>set\<close> accepts: an object, a string, or an array none of whose
  elements is an array or an object.
\<close>

fun is_container :: "json \<Rightarrow> bool" where
  "is_container (JArr xs) = True"
| "is_container (JObj kvs) = True"
| "is_container j = False"

fun set_accepts :: "json \<Rightarrow> bool" where
  "set_accepts (JArr xs) = list_all (\<lambda>x. \<not> is_container x) xs"
| "set_accepts (JObj kvs) = True"
| "set_accepts (JStr s) = True"
| "set_accepts j = False"

text \<open>
  The two conditions on a link, in the words of the specification: the resolved URL,
  in lower case, ends with \<open>.pdf\<close> or contains \<open>.pdf?\<close>; the text, in lower case,
  contains one of the keywords.
\<close>

definition has_extension :: "string \<Rightarrow> bool" where
  "has_extension u \<longleftrightarrow> suffix ''.pdf'' (lower u) \<or> sublist ''.pdf?'' (lower u)"

definition has_keyword :: "string \<Rightarrow> bool" where
  "has_keyword t \<longleftrightarrow> list_ex (\<lambda>k. sublist k (lower t)) KEYWORDS"

text \<open>
  Whether \<open>urljoin\<close> resolves the \<open>href\<close> of a link against the address of the
  listing page, and the URL it gives (the empty string stands where there is none).
\<close>

definition resolves :: "env \<Rightarrow> anchor \<Rightarrow> bool" where
  "resolves E a = (case urljoin E SEBI_URL (anchor_href a) of Inl e \<Rightarrow> False | Inr u \<Rightarrow> True)"

definition resolved :: "env \<Rightarrow> anchor \<Rightarrow> string" where
  "resolved E a = (case urljoin E SEBI_URL (anchor_href a) of Inl e \<Rightarrow> [] | Inr u \<Rightarrow> u)"

text \<open>
  A candidate as the claim words it: the keywords are looked for in the visible text
  immediately followed by the \<open>href\<close>.
\<close>

definition claimed_candidate :: "env \<Rightarrow> anchor \<Rightarrow> bool" where
  "claimed_candidate E a \<longleftrightarrow>
     resolves E a \<and> has_extension (resolved E a) \<and>
     has_keyword (anchor_text a @ anchor_href a)"

text \<open>
  A candidate with the text that line 88 builds: the visible text, one space, the
  \<open>href\<close>.
\<close>

definition candidate :: "env \<Rightarrow> anchor \<Rightarrow> bool" where
  "candidate E a \<longleftrightarrow>
     resolves E a \<and> has_extension (resolved E a) \<and>
     has_keyword (anchor_text a @ '' '' @ anchor_href a)"

subsection \<open>Example inputs\<close>

text \<open>
  Two documents next to the listing page, and an environment for them. The library
  functions are given on the inputs the examples use: \<open>urljoin\<close> for a reference that
  is a bare file name (it replaces the last segment of the base) and for the reference
  \<open>http://[x/draft.pdf\<close>, on which it raises \<open>ValueError\<close>; \<open>urlparse\<close>'s path
  for an \<open>https\<close> URL without query or fragment, and SHA-1 by its values at the three
  URLs that occur. Every download of a URL in \<open>failing\<close> raises; no upload does. The
  iteration order of a set puts the first document before the second.
\<close>

definition url_A :: string where
  "url_A = ''https://www.sebi.gov.in/filings/a-drhp.pdf''"

definition url_B :: string where
  "url_B = ''https://www.sebi.gov.in/filings/b-drhp.pdf''"

definition urljoin_file_name :: "string \<Rightarrow> string \<Rightarrow> exn + string" where
  "urljoin_file_name base ref =
     (if ref = ''http://[x/draft.pdf'' then Inl ValueError
      else Inr (rev (dropWhile (\<lambda>c. c \<noteq> CHR ''/'') (rev base)) @ ref))"

definition url_path_https :: "string \<Rightarrow> string" where
  "url_path_https u = dropWhile (\<lambda>c. c \<noteq> CHR ''/'') (drop 8 u)"

definition sha1_hex_table :: "string \<Rightarrow> string" where
  "sha1_hex_table u =
     (if u = url_A then ''f14034cad50031b8521dabcdeb061f5ed65e1e43''
      else if u = url_B then ''ee0e2464513fb7ba26e48e7247ab456801939857''
      else if u = ''https://www.sebi.gov.in/filings/herring.pdf''
        then ''69dc85bb6d0c5a2cf854a94c85bf2a7d6e2700a8''
      else [])"

definition example_env :: "anchor list \<Rightarrow> exn option \<Rightarrow> string list \<Rightarrow> env" where
  "example_env anchors cred failing =
     \<lparr>listing = Inr anchors,
      credentials = cred,
      download_exn = (\<lambda>t u. if u \<in> set failing then Some (Failure ''HTTPError'') else None),
      upload_exn = (\<lambda>t f. None),
      urljoin = urljoin_file_name,
      url_path = url_path_https,
      sha1_hex = sha1_hex_table,
      iter_order = (\<lambda>S. filter (\<lambda>a. a \<in> S) [PStr url_A, PStr url_B])\<rparr>"

definition fresh_world :: world where
  "fresh_world = \<lparr>state_file = None, trace = []\<rparr>"

definition fresh_run :: run where
  "fresh_run = \<lparr>world = fresh_world, state = {}, new_count = 0\<rparr>"

text \<open>
  The two links of the example listing page, and a state file that holds the first
  document's URL.
\<close>

definition link_A :: anchor where
  "link_A = \<lparr>anchor_href = ''a-drhp.pdf'', anchor_text = ''Alpha Ltd - DRHP''\<rparr>"

definition link_B :: anchor where
  "link_B = \<lparr>anchor_href = ''b-drhp.pdf'', anchor_text = ''Beta Ltd - DRHP''\<rparr>"

definition world_with_A :: world where
  "world_with_A = \<lparr>state_file = Some (Document (JArr [JStr url_A])), trace = []\<rparr>"

text \<open>The loop variables of a run that has the first document in its set.\<close>

definition run_with_A :: run where
  "run_with_A = \<lparr>world = fresh_world, state = {PStr url_A}, new_count = 0\<rparr>"

text \<open>
  Three more links: one whose keyword is split between the text and the file name, one
  with a keyword and no document extension, one with the extension and no keyword.
\<close>

definition link_herring :: anchor where
  "link_herring = \<lparr>anchor_href = ''herring.pdf'', anchor_text = ''Red''\<rparr>"

definition link_notes :: anchor where
  "link_notes = \<lparr>anchor_href = ''notes.html'', anchor_text = ''Draft notes''\<rparr>"

definition link_annual :: anchor where
  "link_annual = \<lparr>anchor_href = ''annual.pdf'', anchor_text = ''Annual report''\<rparr>"

text \<open>A link whose \<open>href\<close> has an unbalanced bracket in its host.\<close>

definition link_bracket :: anchor where
  "link_bracket = \<lparr>anchor_href = ''http://[x/draft.pdf'', anchor_text = ''Draft''\<rparr>"

section \<open>Properties\<close>

subsection \<open>The state store\<close>

lemma hashable_json_of: "hashable (json_of a) = Some a"
  by (cases a) simp_all

lemma hashable_json_string: "is_json_string x \<Longrightarrow> hashable x \<noteq> None"
  by (cases x) simp_all

lemma py_set_url_array: "is_url_array j \<Longrightarrow> \<exists>S. py_set j = Inr S"
  by (cases j) (auto simp: list_all_iff dest: hashable_json_string)

lemma load_state_well_formed:
  "state_file w = Some c \<Longrightarrow> well_formed_state c \<Longrightarrow> \<exists>S. load_state w = Inr S"
  using py_set_url_array
  by (auto simp: load_state_def well_formed_state_def json_load_def split: file_content.splits)

lemma main_load_fails: "load_state w = Inl e \<Longrightarrow> main E w = (w, Inl e)"
  by (simp add: main_def)

lemma finite_load_state: "load_state w = Inr st \<Longrightarrow> finite st"
proof -
  have "py_set j = Inr st \<Longrightarrow> finite st" for j
    by (cases j) (auto split: if_splits)
  then show "load_state w = Inr st \<Longrightarrow> finite st"
    by (auto simp: load_state_def json_load_def split: option.splits file_content.splits)
qed

lemma load_save_state:
  "set (iter_order E A) = A \<Longrightarrow> load_state (save_state E A w) = Inr A"
  by (simp add: load_state_def save_state_def json_load_def list_all_iff hashable_json_of comp_def)

subsection \<open>One candidate\<close>

lemma process_candidate_attempt:
  "process_candidate E url r =
     (if PStr url \<in> state r then r
      else case attempt E url (world r) of
             (w', Inl e) \<Rightarrow> r\<lparr>world := emit (Stdout (Error_with url e)) w'\<rparr>
           | (w', Inr u) \<Rightarrow>
               r\<lparr>world := emit (Sleep 1) w',
                 state := insert (PStr url) (state r),
                 new_count := new_count r + 1\<rparr>)"
  by (simp add: process_candidate_def attempt_def Let_def split: prod.splits sum.splits)

lemma process_candidate_skip: "PStr url \<in> state r \<Longrightarrow> process_candidate E url r = r"
  by (simp add: process_candidate_attempt)

lemma process_candidate_fail:
  "PStr url \<notin> state r \<Longrightarrow> attempt E url (world r) = (w', Inl e) \<Longrightarrow>
   process_candidate E url r = r\<lparr>world := emit (Stdout (Error_with url e)) w'\<rparr>"
  by (simp add: process_candidate_attempt)

lemma process_candidate_ok:
  "PStr url \<notin> state r \<Longrightarrow> attempt E url (world r) = (w', Inr u) \<Longrightarrow>
   process_candidate E url r =
     r\<lparr>world := emit (Sleep 1) w', state := insert (PStr url) (state r),
       new_count := new_count r + 1\<rparr>"
  by (simp add: process_candidate_attempt)

lemma attempt_cases:
  "attempt E url w =
    (let f = pdf_filename E url; p = os_path_join OUT_DIR f;
         t1 = trace w @ [Stdout (Downloading url), Http_get url] in
     case download_exn E t1 url of
       Some e \<Rightarrow> (w\<lparr>trace := t1\<rparr>, Inl e)
     | None \<Rightarrow>
        (let t2 = t1 @ [Stdout (Saved p), Drive_upload p f] in
         case upload_exn E t2 f of
           Some e \<Rightarrow> (w\<lparr>trace := t2\<rparr>, Inl e)
         | None \<Rightarrow> (w\<lparr>trace := t2 @ [Stdout (Uploaded_to_Drive f)]\<rparr>, Inr ())))"
  by (simp add: attempt_def download_file_def upload_to_drive_def emit_def Let_def
      split: option.splits)

lemma attempt_state_file: "attempt E url w = (w', res) \<Longrightarrow> state_file w' = state_file w"
  by (auto simp: attempt_cases Let_def split: option.splits)

lemma attempt_new_events:
  "attempt E url w = (w', res) \<Longrightarrow>
   trace w' = trace w @ new_events w w' \<and>
   count_list (new_events w w') (Sleep 1) = 0 \<and>
   length (filter uploaded_line (new_events w w')) = (if res = Inr () then 1 else 0)"
  by (auto simp: attempt_cases Let_def new_events_def uploaded_line_def split: option.splits)

lemma new_events_emit:
  assumes "trace w' = trace w @ new_events w w'"
  shows "new_events w (emit ev w') = new_events w w' @ [ev]"
proof -
  obtain xs where xs: "trace w' = trace w @ xs" using assms by blast
  then show ?thesis by (simp add: new_events_def emit_def)
qed

lemma process_candidate_world:
  "state_file (world (process_candidate E url r)) = state_file (world r) \<and>
   trace (world (process_candidate E url r)) =
     trace (world r) @ new_events (world r) (world (process_candidate E url r)) \<and>
   count_list (new_events (world r) (world (process_candidate E url r))) (Sleep 1) + new_count r
     = new_count (process_candidate E url r) \<and>
   length (filter uploaded_line (new_events (world r) (world (process_candidate E url r))))
     + new_count r = new_count (process_candidate E url r)"
proof (cases "PStr url \<in> state r")
  case True
  then show ?thesis by (simp add: process_candidate_skip new_events_def)
next
  case False
  obtain w' res where a: "attempt E url (world r) = (w', res)" by (cases "attempt E url (world r)")
  note sf = attempt_state_file [OF a]
  note ne = attempt_new_events [OF a]
  show ?thesis
  proof (cases res)
    case (Inl e)
    with False a have "process_candidate E url r = r\<lparr>world := emit (Stdout (Error_with url e)) w'\<rparr>"
      by (simp add: process_candidate_fail)
    moreover have "new_events (world r) (emit (Stdout (Error_with url e)) w') =
        new_events (world r) w' @ [Stdout (Error_with url e)]"
      using ne by (simp add: new_events_emit)
    ultimately show ?thesis using sf ne Inl
      by (simp add: emit_def uploaded_line_def)
  next
    case (Inr u)
    with False a have "process_candidate E url r =
       r\<lparr>world := emit (Sleep 1) w', state := insert (PStr url) (state r),
         new_count := new_count r + 1\<rparr>"
      by (simp add: process_candidate_ok)
    moreover have "new_events (world r) (emit (Sleep 1) w') = new_events (world r) w' @ [Sleep 1]"
      using ne by (simp add: new_events_emit)
    ultimately show ?thesis using sf ne Inr
      by (simp add: emit_def uploaded_line_def)
  qed
qed

lemma process_candidate_count:
  "new_count (process_candidate E url r) =
     new_count r + (if PStr url \<notin> state r \<and> snd (attempt E url (world r)) = Inr () then 1 else 0)"
  by (auto simp: process_candidate_attempt split: prod.splits sum.splits)

subsection \<open>The archiving loop\<close>

lemma state_process_candidate: "state r \<subseteq> state (process_candidate E url r)"
  by (auto simp: process_candidate_attempt split: prod.splits sum.splits)

lemma state_archive_all: "state r \<subseteq> state (archive_all E urls r)"
proof (induction urls arbitrary: r)
  case Nil show ?case by simp
next
  case (Cons u us)
  have "state r \<subseteq> state (process_candidate E u r)" by (rule state_process_candidate)
  also have "\<dots> \<subseteq> state (archive_all E us (process_candidate E u r))" by (rule Cons.IH)
  finally show ?case by simp
qed




lemma archive_all_skip_loaded:
  "S0 \<subseteq> state r \<Longrightarrow>
   archive_all E urls r = archive_all E (filter (\<lambda>u. PStr u \<notin> S0) urls) r"
proof (induction urls arbitrary: r)
  case Nil show ?case by simp
next
  case (Cons u us)
  have sub: "S0 \<subseteq> state (process_candidate E u r)"
    using Cons.prems state_process_candidate by blast
  show ?case
  proof (cases "PStr u \<in> S0")
    case True
    then have "process_candidate E u r = r" using Cons.prems by (auto intro: process_candidate_skip)
    with True Cons show ?thesis by simp
  next
    case False
    with Cons.IH [OF sub] show ?thesis by simp
  qed
qed

lemma count_process_candidate:
  "finite (state r) \<Longrightarrow>
   finite (state (process_candidate E url r)) \<and>
   new_count (process_candidate E url r) + card (state r) =
     new_count r + card (state (process_candidate E url r))"
  by (auto simp: process_candidate_attempt split: prod.splits sum.splits)

lemma count_archive_all:
  "finite (state r) \<Longrightarrow>
   finite (state (archive_all E urls r)) \<and>
   new_count (archive_all E urls r) + card (state r) =
     new_count r + card (state (archive_all E urls r))"
proof (induction urls arbitrary: r)
  case Nil then show ?case by simp
next
  case (Cons u us)
  from count_process_candidate [OF Cons.prems, of E u]
  have f: "finite (state (process_candidate E u r))"
    and c: "new_count (process_candidate E u r) + card (state r) =
     new_count r + card (state (process_candidate E u r))" by simp_all
  from Cons.IH [OF f] c show ?case by simp
qed


lemma new_events_trans:
  "trace w1 = trace w0 @ new_events w0 w1 \<Longrightarrow> trace w2 = trace w1 @ new_events w1 w2 \<Longrightarrow>
   new_events w0 w2 = new_events w0 w1 @ new_events w1 w2"
  by (metis append_eq_conv_conj append.assoc new_events_def)

lemma archive_all_world:
  "state_file (world (archive_all E urls r)) = state_file (world r) \<and>
   trace (world (archive_all E urls r)) =
     trace (world r) @ new_events (world r) (world (archive_all E urls r)) \<and>
   count_list (new_events (world r) (world (archive_all E urls r))) (Sleep 1) + new_count r
     = new_count (archive_all E urls r) \<and>
   length (filter uploaded_line (new_events (world r) (world (archive_all E urls r))))
     + new_count r = new_count (archive_all E urls r)"
proof (induction urls arbitrary: r)
  case Nil
  show ?case by (simp add: new_events_def)
next
  case (Cons u us)
  let ?r1 = "process_candidate E u r"
  let ?r2 = "archive_all E us ?r1"
  note s = process_candidate_world [of E u r]
  note i = Cons.IH [of ?r1]
  have t: "trace (world ?r2) = trace (world r) @ new_events (world r) (world ?r2)"
    using s i by (metis append_eq_conv_conj append.assoc new_events_def)
  have n: "new_events (world r) (world ?r2) =
     new_events (world r) (world ?r1) @ new_events (world ?r1) (world ?r2)"
    using s i by (intro new_events_trans) simp_all
  show ?case using s i t n by simp
qed

subsection \<open>The candidates\<close>

lemma candidate_iff:
  "urljoin E SEBI_URL (anchor_href a) = Inr u \<Longrightarrow>
   is_pdf_link u \<and> likely_drhp_text (anchor_text a @ '' '' @ anchor_href a) \<longleftrightarrow> candidate E a"
  by (auto simp: is_pdf_link_def likely_drhp_text_def candidate_def has_extension_def
      has_keyword_def lower_def resolves_def resolved_def)

lemma collect_acc:
  "list_all (resolves E) as \<Longrightarrow>
   collect E as acc = Inr (acc @ map (resolved E) (filter (candidate E) as))"
proof (induction as arbitrary: acc)
  case Nil show ?case by simp
next
  case (Cons a as)
  from Cons.prems obtain u where u: "urljoin E SEBI_URL (anchor_href a) = Inr u"
    by (auto simp: resolves_def split: sum.splits)
  have r: "resolved E a = u" using u by (simp add: resolved_def)
  from Cons.prems have rest: "list_all (resolves E) as" by simp
  show ?case using u r candidate_iff [OF u] Cons.IH [OF rest] by (simp add: Let_def)
qed

lemma collect_raises:
  "list_all (resolves E) pre \<Longrightarrow> urljoin E SEBI_URL (anchor_href a) = Inl e \<Longrightarrow>
   collect E (pre @ a # post) acc = Inl e"
proof (induction pre arbitrary: acc)
  case Nil then show ?case by simp
next
  case (Cons b bs)
  from Cons.prems obtain u where u: "urljoin E SEBI_URL (anchor_href b) = Inr u"
    by (auto simp: resolves_def split: sum.splits)
  from Cons.prems have "list_all (resolves E) bs" by simp
  from Cons.IH [OF this Cons.prems(2)] u show ?case by (simp add: Let_def)
qed

subsection \<open>The ways through main\<close>

lemma main_ok:
  "load_state w = Inr st \<Longrightarrow> listing E = Inr anchors \<Longrightarrow> collect E anchors [] = Inr cs \<Longrightarrow>
   credentials E = None \<Longrightarrow>
   main E w = (finish_run E (archive_all E cs (start_run w st)), Inr ())"
  by (simp add: main_def get_drive_def emit_def Let_def start_run_def finish_run_def save_state_def)

lemma main_listing_fails:
  "load_state w = Inr st \<Longrightarrow> listing E = Inl e \<Longrightarrow>
   main E w =
     (w\<lparr>trace := trace w @ [Stdout (Loaded_state (card st)), Http_get SEBI_URL]\<rparr>, Inl e)"
  by (simp add: main_def emit_def Let_def)

lemma main_collect_fails:
  "load_state w = Inr st \<Longrightarrow> listing E = Inr anchors \<Longrightarrow> collect E anchors [] = Inl e \<Longrightarrow>
   main E w =
     (w\<lparr>trace := trace w @ [Stdout (Loaded_state (card st)), Http_get SEBI_URL]\<rparr>, Inl e)"
  by (simp add: main_def emit_def Let_def)

lemma main_credentials_fail:
  "load_state w = Inr st \<Longrightarrow> listing E = Inr anchors \<Longrightarrow> collect E anchors [] = Inr cs \<Longrightarrow>
   credentials E = Some e \<Longrightarrow>
   main E w =
     (w\<lparr>trace := trace w @
          [Stdout (Loaded_state (card st)), Http_get SEBI_URL, Credentials_read]\<rparr>, Inl e)"
  by (simp add: main_def get_drive_def emit_def Let_def)

lemma main_Inr:
  "main E w = (w', Inr u) \<Longrightarrow>
   \<exists>st anchors cs. load_state w = Inr st \<and> listing E = Inr anchors \<and>
      collect E anchors [] = Inr cs \<and> credentials E = None"
  by (auto simp: main_def get_drive_def Let_def split: sum.splits option.splits)

lemma py_set_accepts: "set_accepts j \<Longrightarrow> \<exists>S. py_set j = Inr S"
proof (cases j)
  case (JArr xs)
  assume "set_accepts j"
  with JArr have "\<forall>x\<in>set xs. \<not> is_container x" by (simp add: list_all_iff)
  moreover have "\<not> is_container x \<Longrightarrow> hashable x \<noteq> None" for x by (cases x) simp_all
  ultimately show ?thesis using JArr by (simp add: list_all_iff)
qed simp_all

lemma py_set_rejects: "\<not> set_accepts j \<Longrightarrow> py_set j = Inl TypeError"
proof (cases j)
  case (JArr xs)
  assume "\<not> set_accepts j"
  with JArr obtain x where x: "x \<in> set xs" "is_container x" by (auto simp: list_all_iff)
  from x(2) have "hashable x = None" by (cases x) simp_all
  with x JArr show ?thesis by (auto simp: list_all_iff)
qed simp_all

lemma py_set_strings: "py_set (JArr (map JStr urls)) = Inr (PStr ` set urls)"
  by (simp add: list_all_iff comp_def)

subsection \<open>Example runs\<close>

lemma load_A: "load_state world_with_A = Inr {PStr url_A}"
  by (simp add: load_state_def world_with_A_def json_load_def)

lemma main_example:
  "main (example_env [link_A, link_B] None []) world_with_A =
    (\<lparr>state_file = Some (Document (JArr [JStr url_A, JStr url_B])),
      trace = [Stdout (Loaded_state 1), Http_get SEBI_URL, Credentials_read,
               Stdout (Downloading url_B), Http_get url_B,
               Stdout (Saved ''drhps/ee0e2464_b-drhp.pdf''),
               Drive_upload ''drhps/ee0e2464_b-drhp.pdf'' ''ee0e2464_b-drhp.pdf'',
               Stdout (Uploaded_to_Drive ''ee0e2464_b-drhp.pdf''), Sleep 1,
               Stdout (New_PDFs 1)]\<rparr>, Inr ())"
  by code_simp

lemma main_example_dup:
  "main (example_env [link_B, link_B] None []) world_with_A =
    (\<lparr>state_file = Some (Document (JArr [JStr url_A, JStr url_B])),
      trace = [Stdout (Loaded_state 1), Http_get SEBI_URL, Credentials_read,
               Stdout (Downloading url_B), Http_get url_B,
               Stdout (Saved ''drhps/ee0e2464_b-drhp.pdf''),
               Drive_upload ''drhps/ee0e2464_b-drhp.pdf'' ''ee0e2464_b-drhp.pdf'',
               Stdout (Uploaded_to_Drive ''ee0e2464_b-drhp.pdf''), Sleep 1,
               Stdout (New_PDFs 1)]\<rparr>, Inr ())"
  by code_simp

lemma attempt_A_fails:
  "attempt (example_env [] None [url_A]) url_A (world fresh_run) =
    (\<lparr>state_file = None, trace = [Stdout (Downloading url_A), Http_get url_A]\<rparr>,
     Inl (Failure ''HTTPError''))"
  by code_simp


lemma attempt_B_ok:
  "attempt (example_env [] None []) url_B (world run_with_A) =
    (\<lparr>state_file = None,
      trace = [Stdout (Downloading url_B), Http_get url_B,
               Stdout (Saved ''drhps/ee0e2464_b-drhp.pdf''),
               Drive_upload ''drhps/ee0e2464_b-drhp.pdf'' ''ee0e2464_b-drhp.pdf'',
               Stdout (Uploaded_to_Drive ''ee0e2464_b-drhp.pdf'')]\<rparr>, Inr ())"
  by code_simp

lemma run_skip_fail_fail:
  "archive_all (example_env [] None [url_B]) [url_A, url_B, url_B] run_with_A =
    \<lparr>world = \<lparr>state_file = None,
               trace = [Stdout (Downloading url_B), Http_get url_B,
                        Stdout (Error_with url_B (Failure ''HTTPError'')),
                        Stdout (Downloading url_B), Http_get url_B,
                        Stdout (Error_with url_B (Failure ''HTTPError''))]\<rparr>,
      state = {PStr url_A}, new_count = 0\<rparr>"
  by code_simp

section \<open>The claims\<close>

subsection \<open>Reading and writing the state\<close>

text \<open>
  Claim C7, as stated, fails: a state file that exists and is malformed does not always
  make \<open>load_state\<close> fail. A file that holds an empty JSON object is not a well-formed
  state, and \<open>set\<close> of the empty dictionary is the empty set: the corrupt state is read
  as the empty state, without any error.
\<close>

theorem load_state_counterexample:
  "\<not> well_formed_state (Document (JObj [])) \<and>
   load_state \<lparr>state_file = Some (Document (JObj [])), trace = []\<rparr> = Inr {}"
  by (simp add: well_formed_state_def load_state_def json_load_def)

text \<open>
  Claim C7, amended. When there is no state file, \<open>load_state\<close> returns the empty set
  and does not fail. It fails only when the file exists and its contents are not a
  well-formed state, and then in these cases and no other: contents that \<open>json.load\<close>
  rejects make it fail with the exception of \<open>json.load\<close> (the parse error, for text
  that is not JSON); a document that \<open>set\<close> does not accept (null, a boolean, a
  number, an array with an array or an object among its elements) makes it fail with
  \<open>TypeError\<close>. Every other document is read as a set without an error, a JSON array
  of strings as the set of those strings. An error of \<open>load_state\<close> leaves \<open>main\<close>
  as it is, with nothing else done.
\<close>

theorem load_state_contract:
  "(state_file w = None \<longrightarrow> load_state w = Inr {}) \<and>
   (load_state w = Inl e \<longrightarrow> (\<exists>c. state_file w = Some c \<and> \<not> well_formed_state c)) \<and>
   (state_file w = Some (Rejected e) \<longrightarrow> load_state w = Inl e) \<and>
   (state_file w = Some (Document j) \<and> \<not> set_accepts j \<longrightarrow> load_state w = Inl TypeError) \<and>
   (state_file w = Some (Document j) \<and> set_accepts j \<longrightarrow> (\<exists>S. load_state w = Inr S)) \<and>
   (state_file w = Some (Document (JArr (map JStr urls))) \<longrightarrow>
      load_state w = Inr (PStr ` set urls)) \<and>
   (load_state w = Inl e \<longrightarrow> main E w = (w, Inl e))"
proof (intro conjI impI)
  assume "state_file w = None" then show "load_state w = Inr {}" by (simp add: load_state_def)
next
  assume f: "load_state w = Inl e"
  then obtain c where c: "state_file w = Some c"
    by (cases "state_file w") (auto simp: load_state_def)
  have "\<not> well_formed_state c"
    using load_state_well_formed [OF c] f by auto
  with c show "\<exists>c. state_file w = Some c \<and> \<not> well_formed_state c" by blast
next
  assume "state_file w = Some (Rejected e)"
  then show "load_state w = Inl e" by (simp add: load_state_def json_load_def)
next
  assume "state_file w = Some (Document j) \<and> \<not> set_accepts j"
  then show "load_state w = Inl TypeError"
    by (simp add: load_state_def json_load_def py_set_rejects)
next
  assume "state_file w = Some (Document j) \<and> set_accepts j"
  then show "\<exists>S. load_state w = Inr S"
    using py_set_accepts [of j] by (simp add: load_state_def json_load_def)
next
  assume "state_file w = Some (Document (JArr (map JStr urls)))"
  then show "load_state w = Inr (PStr ` set urls)"
    by (simp add: load_state_def json_load_def py_set_strings del: py_set.simps)
next
  assume "load_state w = Inl e" then show "main E w = (w, Inl e)" by (rule main_load_fails)
qed

text \<open>
  The amended theorem at a run without a state file, at a state file that is not JSON,
  at one that holds the number 5, at one that holds an empty object and at one that
  holds the first document's URL.
\<close>

theorem load_state_contract_witness:
  "state_file fresh_world = None \<and> load_state fresh_world = Inr {} \<and>
   \<not> well_formed_state (Rejected JSONDecodeError) \<and>
   load_state (fresh_world\<lparr>state_file := Some (Rejected JSONDecodeError)\<rparr>)
     = Inl JSONDecodeError \<and>
   main (example_env [] None []) (fresh_world\<lparr>state_file := Some (Rejected JSONDecodeError)\<rparr>) =
     (fresh_world\<lparr>state_file := Some (Rejected JSONDecodeError)\<rparr>, Inl JSONDecodeError) \<and>
   \<not> set_accepts (JNum 5) \<and>
   load_state (fresh_world\<lparr>state_file := Some (Document (JNum 5))\<rparr>) = Inl TypeError \<and>
   set_accepts (JObj []) \<and>
   load_state (fresh_world\<lparr>state_file := Some (Document (JObj []))\<rparr>) = Inr {} \<and>
   load_state world_with_A = Inr {PStr url_A}"
proof -
  let ?E = "example_env [] None []"
  let ?w1 = "fresh_world\<lparr>state_file := Some (Rejected JSONDecodeError)\<rparr>"
  let ?w2 = "fresh_world\<lparr>state_file := Some (Document (JNum 5))\<rparr>"
  let ?w3 = "fresh_world\<lparr>state_file := Some (Document (JObj []))\<rparr>"
  have a: "state_file fresh_world = None" by (simp add: fresh_world_def)
  from load_state_contract [of fresh_world] a
  have b: "load_state fresh_world = Inr {}" by blast
  have c: "state_file ?w1 = Some (Rejected JSONDecodeError)" by simp
  note t1 = load_state_contract [of ?w1 JSONDecodeError _ _ ?E]
  from t1 c have d: "load_state ?w1 = Inl JSONDecodeError" by blast
  from t1 d have e: "main ?E ?w1 = (?w1, Inl JSONDecodeError)" by blast
  from t1 d have "\<exists>c. state_file ?w1 = Some c \<and> \<not> well_formed_state c" by blast
  then have f: "\<not> well_formed_state (Rejected JSONDecodeError)" by simp
  have g: "state_file ?w2 = Some (Document (JNum 5)) \<and> \<not> set_accepts (JNum 5)" by simp
  from load_state_contract [of ?w2 _ "JNum 5"] g
  have h: "load_state ?w2 = Inl TypeError" by blast
  have i: "state_file ?w3 = Some (Document (JObj [])) \<and> set_accepts (JObj [])" by simp
  from load_state_contract [of ?w3 _ "JObj []"] i
  have "\<exists>S. load_state ?w3 = Inr S" by blast
  then have j: "load_state ?w3 = Inr {}" by (simp add: load_state_def json_load_def)
  have k: "state_file world_with_A = Some (Document (JArr (map JStr [url_A])))"
    by (simp add: world_with_A_def)
  from load_state_contract [of world_with_A _ _ "[url_A]"] k
  have l: "load_state world_with_A = Inr (PStr ` set [url_A])" by blast
  from a b f d e g h i j l show ?thesis by simp
qed

text \<open>
  Claim C8. For every set \<open>S\<close> of URLs, whatever the order in which Python lists its
  elements when it writes them, \<open>load_state\<close> after \<open>save_state\<close> gives \<open>S\<close> back.
  (A list enumerates \<open>S\<close> only if \<open>S\<close> is finite.)
\<close>

theorem state_round_trip:
  "set (iter_order E (PStr ` S)) = PStr ` S \<Longrightarrow>
   load_state (save_state E (PStr ` S) w) = Inr (PStr ` S)"
  by (rule load_save_state)

text \<open>
  The theorem at the set of the two example URLs, written in the order A, B.
\<close>

theorem state_round_trip_witness:
  "set (iter_order (example_env [] None []) (PStr ` {url_B, url_A})) = PStr ` {url_B, url_A} \<and>
   iter_order (example_env [] None []) (PStr ` {url_B, url_A}) = [PStr url_A, PStr url_B] \<and>
   load_state (save_state (example_env [] None []) (PStr ` {url_B, url_A}) fresh_world)
     = Inr (PStr ` {url_B, url_A})"
proof -
  have o: "iter_order (example_env [] None []) (PStr ` {url_B, url_A}) = [PStr url_A, PStr url_B]"
    by (simp add: example_env_def)
  then have h: "set (iter_order (example_env [] None []) (PStr ` {url_B, url_A})) = PStr ` {url_B, url_A}"
    by auto
  from state_round_trip [OF h, of fresh_world] o h show ?thesis by blast
qed

subsection \<open>Fatal errors\<close>

text \<open>
  Claim C4. If the request for the listing page fails, the run ends with that
  exception. The loaded state has been reported and the listing requested, and
  nothing else has happened: the state file is as it was, and no download or upload
  has been started.
\<close>

theorem listing_failure_aborts:
  assumes "listing E = Inl e" and "load_state w = Inr st"
  shows "main E w =
           (w\<lparr>trace := trace w @ [Stdout (Loaded_state (card st)), Http_get SEBI_URL]\<rparr>, Inl e)
         \<and> state_file (fst (main E w)) = state_file w
         \<and> list_all (\<lambda>ev. \<not> archiving_event ev) (new_events w (fst (main E w)))"
  using assms by (simp add: main_listing_fails new_events_def archiving_event_def)

text \<open>
  The theorem at a first run whose request for the listing page cannot connect.
\<close>

theorem listing_failure_aborts_witness:
  "listing ((example_env [] None [])\<lparr>listing := Inl (Failure ''ConnectionError'')\<rparr>)
     = Inl (Failure ''ConnectionError'') \<and>
   load_state fresh_world = Inr {} \<and>
   main ((example_env [] None [])\<lparr>listing := Inl (Failure ''ConnectionError'')\<rparr>) fresh_world =
     (\<lparr>state_file = None, trace = [Stdout (Loaded_state 0), Http_get SEBI_URL]\<rparr>,
      Inl (Failure ''ConnectionError''))"
proof -
  have a: "listing ((example_env [] None [])\<lparr>listing := Inl (Failure ''ConnectionError'')\<rparr>)
     = Inl (Failure ''ConnectionError'')" by simp
  have b: "load_state fresh_world = Inr {}" by (simp add: load_state_def fresh_world_def)
  from listing_failure_aborts [OF a b] a b show ?thesis by (simp add: fresh_world_def)
qed

text \<open>
  Claim C6, as stated, fails: \<open>get_drive\<close> is called after the listing page has been
  fetched. In a first run with an empty listing page and no key file, the request for
  the listing page is in the trace when the run ends with the credential error.
\<close>

theorem credential_failure_counterexample:
  "main (example_env [] (Some (Failure ''FileNotFoundError'')) []) fresh_world =
     (\<lparr>state_file = None,
       trace = [Stdout (Loaded_state 0), Http_get SEBI_URL, Credentials_read]\<rparr>,
      Inl (Failure ''FileNotFoundError''))"
  by (simp add: main_def load_state_def fresh_world_def example_env_def get_drive_def emit_def)

text \<open>
  Claim C6, amended. If the credential file is missing or invalid, and the state was
  loaded and the listing page fetched, the run ends with an exception after the
  listing page has been requested and before any download or upload is started; the
  state file is not written. The exception is the credential error, raised after the
  key file has been read, whenever every link of the page has been resolved.
\<close>

theorem credential_failure_aborts:
  assumes "credentials E = Some e" and "load_state w = Inr st" and "listing E = Inr anchors"
  shows "(\<forall>cs. collect E anchors [] = Inr cs \<longrightarrow>
            main E w =
              (w\<lparr>trace := trace w @
                   [Stdout (Loaded_state (card st)), Http_get SEBI_URL, Credentials_read]\<rparr>,
               Inl e))
         \<and> (\<exists>e'. snd (main E w) = Inl e')
         \<and> Http_get SEBI_URL \<in> set (new_events w (fst (main E w)))
         \<and> state_file (fst (main E w)) = state_file w
         \<and> list_all (\<lambda>ev. \<not> archiving_event ev) (new_events w (fst (main E w)))"
proof (cases "collect E anchors []")
  case (Inl e')
  from main_collect_fails [OF assms(2) assms(3) Inl] Inl show ?thesis
    by (simp add: new_events_def archiving_event_def)
next
  case (Inr cs)
  from main_credentials_fail [OF assms(2) assms(3) Inr assms(1)] Inr show ?thesis
    by (simp add: new_events_def archiving_event_def)
qed

text \<open>
  The amended theorem at a first run with one link on the listing page and no key file.
\<close>

theorem credential_failure_aborts_witness:
  "credentials (example_env [link_A] (Some (Failure ''FileNotFoundError'')) [])
     = Some (Failure ''FileNotFoundError'') \<and>
   load_state fresh_world = Inr {} \<and>
   listing (example_env [link_A] (Some (Failure ''FileNotFoundError'')) []) = Inr [link_A] \<and>
   collect (example_env [link_A] (Some (Failure ''FileNotFoundError'')) []) [link_A] []
     = Inr [url_A] \<and>
   main (example_env [link_A] (Some (Failure ''FileNotFoundError'')) []) fresh_world =
     (\<lparr>state_file = None,
       trace = [Stdout (Loaded_state 0), Http_get SEBI_URL, Credentials_read]\<rparr>,
      Inl (Failure ''FileNotFoundError''))"
proof -
  let ?E = "example_env [link_A] (Some (Failure ''FileNotFoundError'')) []"
  have a: "credentials ?E = Some (Failure ''FileNotFoundError'')" by (simp add: example_env_def)
  have b: "load_state fresh_world = Inr {}" by (simp add: load_state_def fresh_world_def)
  have c: "listing ?E = Inr [link_A]" by (simp add: example_env_def)
  have d: "collect ?E [link_A] [] = Inr [url_A]" by code_simp
  from credential_failure_aborts [OF a b c] d
  have "main ?E fresh_world =
     (fresh_world\<lparr>trace := trace fresh_world @
         [Stdout (Loaded_state (card ({} :: pyatom set))), Http_get SEBI_URL, Credentials_read]\<rparr>,
      Inl (Failure ''FileNotFoundError''))" by blast
  with a b c d show ?thesis by (simp add: fresh_world_def)
qed

subsection \<open>The processed set and the summary\<close>

text \<open>
  Claim C10. In every run that reaches the end, the set that \<open>save_state\<close> writes
  contains the set that \<open>load_state\<close> returned at the start; and when the order in
  which its elements are written enumerates it, reading the file back gives that set.
\<close>

theorem processed_set_grows:
  assumes "main E w = (w', Inr ())" and "load_state w = Inr S0"
  shows "\<exists>S. S0 \<subseteq> S \<and> finite S \<and>
           state_file w' = Some (Document (JArr (map json_of (iter_order E S)))) \<and>
           (set (iter_order E S) = S \<longrightarrow> load_state w' = Inr S)"
proof -
  from main_Inr [OF assms(1)] assms(2) obtain anchors cs
    where l: "listing E = Inr anchors" and k: "collect E anchors [] = Inr cs"
      and c: "credentials E = None" by auto
  let ?r = "archive_all E cs (start_run w S0)"
  have w': "w' = finish_run E ?r" using main_ok [OF assms(2) l k c] assms(1) by simp
  have sub: "S0 \<subseteq> state ?r" using state_archive_all [of "start_run w S0"] by (simp add: start_run_def)
  have fin: "finite (state ?r)"
    using count_archive_all [of "start_run w S0"] finite_load_state [OF assms(2)]
    by (simp add: start_run_def)
  have sf: "state_file w' = Some (Document (JArr (map json_of (iter_order E (state ?r)))))"
    by (simp add: w' finish_run_def)
  have rt: "set (iter_order E (state ?r)) = state ?r \<longrightarrow> load_state w' = Inr (state ?r)"
    using load_save_state [of E "state ?r" "world ?r"]
    by (simp add: w' finish_run_def load_state_def save_state_def)
  from sub fin sf rt show ?thesis by blast
qed

text \<open>
  The theorem at a run that starts with the first document in the state file and finds
  both documents on the listing page.
\<close>

theorem processed_set_grows_witness:
  "main (example_env [link_A, link_B] None []) world_with_A =
     (\<lparr>state_file = Some (Document (JArr [JStr url_A, JStr url_B])),
       trace = [Stdout (Loaded_state 1), Http_get SEBI_URL, Credentials_read,
               Stdout (Downloading url_B), Http_get url_B,
               Stdout (Saved ''drhps/ee0e2464_b-drhp.pdf''),
               Drive_upload ''drhps/ee0e2464_b-drhp.pdf'' ''ee0e2464_b-drhp.pdf'',
               Stdout (Uploaded_to_Drive ''ee0e2464_b-drhp.pdf''), Sleep 1,
               Stdout (New_PDFs 1)]\<rparr>, Inr ()) \<and>
   load_state world_with_A = Inr {PStr url_A} \<and>
   load_state \<lparr>state_file = Some (Document (JArr [JStr url_A, JStr url_B])), trace = []\<rparr>
     = Inr {PStr url_A, PStr url_B} \<and>
   {PStr url_A} \<subseteq> {PStr url_A, PStr url_B}"
proof -
  note t = processed_set_grows [OF main_example load_A]
  have "load_state \<lparr>state_file = Some (Document (JArr [JStr url_A, JStr url_B])), trace = []\<rparr>
     = Inr {PStr url_A, PStr url_B}"
    by (simp add: load_state_def json_load_def)
  with t main_example load_A show ?thesis by simp
qed

text \<open>
  Claim C9. In every run that reaches the end, the number reported in the last line is
  the size of the written set minus the size of the loaded set, and it is the number
  of uploads that succeeded during the run. One pass of the loop adds one to the
  counter when the candidate is not in the set and its download and upload both
  succeed, and nothing otherwise.
\<close>

theorem summary_count:
  assumes "main E w = (w', Inr ())" and "load_state w = Inr S0"
  shows "\<exists>S n. state_file w' = Some (Document (JArr (map json_of (iter_order E S)))) \<and>
           S0 \<subseteq> S \<and> finite S \<and>
           last (trace w') = Stdout (New_PDFs n) \<and>
           n = card S - card S0 \<and>
           n = length (filter uploaded_line (new_events w w')) \<and>
           (\<forall>url r. new_count (process_candidate E url r) =
              new_count r +
              (if PStr url \<notin> state r \<and> snd (attempt E url (world r)) = Inr () then 1 else 0))"
proof -
  from main_Inr [OF assms(1)] assms(2) obtain anchors cs
    where l: "listing E = Inr anchors" and k: "collect E anchors [] = Inr cs"
      and c: "credentials E = None" by auto
  let ?s = "start_run w S0"
  let ?r = "archive_all E cs ?s"
  let ?ne = "new_events (world ?s) (world ?r)"
  have w': "w' = finish_run E ?r" using main_ok [OF assms(2) l k c] assms(1) by simp
  have sub: "S0 \<subseteq> state ?r" using state_archive_all [of ?s] by (simp add: start_run_def)
  have fin0: "finite (state ?s)" using finite_load_state [OF assms(2)] by (simp add: start_run_def)
  note cnt = count_archive_all [OF fin0, of E cs]
  have fin: "finite (state ?r)" using cnt by simp
  have "new_count ?r + card S0 = card (state ?r)" using cnt by (simp add: start_run_def)
  then have n1: "new_count ?r = card (state ?r) - card S0" by arith
  note aw = archive_all_world [of E cs ?s]
  have tr: "trace w' = trace w @
      ([Stdout (Loaded_state (card S0)), Http_get SEBI_URL, Credentials_read] @ ?ne
        @ [Stdout (New_PDFs (new_count ?r))])"
  proof -
    have "trace (world ?r) = trace (world ?s) @ ?ne" using aw by blast
    then show ?thesis by (simp add: w' finish_run_def start_run_def)
  qed
  have ne: "new_events w w' =
      [Stdout (Loaded_state (card S0)), Http_get SEBI_URL, Credentials_read] @ ?ne
        @ [Stdout (New_PDFs (new_count ?r))]"
    unfolding new_events_def tr by simp
  have n2: "new_count ?r = length (filter uploaded_line (new_events w w'))"
  proof -
    have "length (filter uploaded_line ?ne) + new_count ?s = new_count ?r" using aw by blast
    then show ?thesis unfolding ne by (simp add: uploaded_line_def start_run_def)
  qed
  have la: "last (trace w') = Stdout (New_PDFs (new_count ?r))" by (simp add: w' finish_run_def)
  have sf: "state_file w' = Some (Document (JArr (map json_of (iter_order E (state ?r)))))"
    by (simp add: w' finish_run_def)
  from sf sub fin la n1 n2 process_candidate_count show ?thesis by blast
qed

text \<open>
  The theorem at a run whose listing page names the second document twice: it is
  archived once, the second occurrence is skipped, and the count is one.
\<close>

theorem summary_count_witness:
  "main (example_env [link_B, link_B] None []) world_with_A =
     (\<lparr>state_file = Some (Document (JArr [JStr url_A, JStr url_B])),
       trace = [Stdout (Loaded_state 1), Http_get SEBI_URL, Credentials_read,
               Stdout (Downloading url_B), Http_get url_B,
               Stdout (Saved ''drhps/ee0e2464_b-drhp.pdf''),
               Drive_upload ''drhps/ee0e2464_b-drhp.pdf'' ''ee0e2464_b-drhp.pdf'',
               Stdout (Uploaded_to_Drive ''ee0e2464_b-drhp.pdf''), Sleep 1,
               Stdout (New_PDFs 1)]\<rparr>, Inr ()) \<and>
   load_state world_with_A = Inr {PStr url_A} \<and>
   card {PStr url_A, PStr url_B} - card {PStr url_A} = (1::nat)"
proof -
  note t = summary_count [OF main_example_dup load_A]
  have "url_A \<noteq> url_B" by (simp add: url_A_def url_B_def)
  then have "card {PStr url_A, PStr url_B} - card {PStr url_A} = (1::nat)" by simp
  with t main_example_dup load_A show ?thesis by simp
qed

subsection \<open>The archiving loop\<close>



text \<open>
  Claim C3. A candidate whose URL is in the set is passed over: the loop variables and
  the world stay as they are, so nothing is requested or uploaded for it; the loop
  behaves as if the candidates that are in the set at its start were not in the list.
  With A in the set and B not, the candidates [A, B] make the loop download and upload
  B alone, add B to the set and count one.
\<close>

theorem skip_already_processed:
  "(PStr url \<in> state r \<longrightarrow> process_candidate E url r = r) \<and>
   archive_all E urls r = archive_all E (filter (\<lambda>u. PStr u \<notin> state r) urls) r \<and>
   (PStr a \<in> state r \<and> PStr b \<notin> state r \<and> attempt E b (world r) = (w', Inr ()) \<longrightarrow>
      archive_all E [a, b] r =
        r\<lparr>world := emit (Sleep 1) w', state := insert (PStr b) (state r),
          new_count := new_count r + 1\<rparr> \<and>
      new_events (world r) w' =
        [Stdout (Downloading b), Http_get b,
         Stdout (Saved (os_path_join OUT_DIR (pdf_filename E b))),
         Drive_upload (os_path_join OUT_DIR (pdf_filename E b)) (pdf_filename E b),
         Stdout (Uploaded_to_Drive (pdf_filename E b))])"
proof (intro conjI impI)
  assume "PStr url \<in> state r" then show "process_candidate E url r = r"
    by (rule process_candidate_skip)
next
  show "archive_all E urls r = archive_all E (filter (\<lambda>u. PStr u \<notin> state r) urls) r"
    by (rule archive_all_skip_loaded) simp
next
  assume h: "PStr a \<in> state r \<and> PStr b \<notin> state r \<and> attempt E b (world r) = (w', Inr ())"
  then show "archive_all E [a, b] r =
        r\<lparr>world := emit (Sleep 1) w', state := insert (PStr b) (state r),
          new_count := new_count r + 1\<rparr>"
    by (simp add: process_candidate_skip process_candidate_ok)
next
  assume h: "PStr a \<in> state r \<and> PStr b \<notin> state r \<and> attempt E b (world r) = (w', Inr ())"
  then have "attempt E b (world r) = (w', Inr ())" by simp
  then show "new_events (world r) w' =
        [Stdout (Downloading b), Http_get b,
         Stdout (Saved (os_path_join OUT_DIR (pdf_filename E b))),
         Drive_upload (os_path_join OUT_DIR (pdf_filename E b)) (pdf_filename E b),
         Stdout (Uploaded_to_Drive (pdf_filename E b))]"
    by (auto simp: attempt_cases Let_def new_events_def split: option.splits)
qed

text \<open>
  The theorem at a set that holds A and the candidates [A, B].
\<close>

theorem skip_already_processed_witness:
  "PStr url_A \<in> state run_with_A \<and> PStr url_B \<notin> state run_with_A \<and>
   attempt (example_env [] None []) url_B (world run_with_A) =
    (\<lparr>state_file = None,
      trace = [Stdout (Downloading url_B), Http_get url_B,
               Stdout (Saved ''drhps/ee0e2464_b-drhp.pdf''),
               Drive_upload ''drhps/ee0e2464_b-drhp.pdf'' ''ee0e2464_b-drhp.pdf'',
               Stdout (Uploaded_to_Drive ''ee0e2464_b-drhp.pdf'')]\<rparr>, Inr ()) \<and>
   process_candidate (example_env [] None []) url_A run_with_A = run_with_A \<and>
   archive_all (example_env [] None []) [url_A, url_B] run_with_A =
    \<lparr>world = \<lparr>state_file = None,
      trace = [Stdout (Downloading url_B), Http_get url_B,
               Stdout (Saved ''drhps/ee0e2464_b-drhp.pdf''),
               Drive_upload ''drhps/ee0e2464_b-drhp.pdf'' ''ee0e2464_b-drhp.pdf'',
               Stdout (Uploaded_to_Drive ''ee0e2464_b-drhp.pdf''), Sleep 1]\<rparr>,
     state = {PStr url_B, PStr url_A}, new_count = 1\<rparr>"
proof -
  have ne: "url_A \<noteq> url_B" by (simp add: url_A_def url_B_def)
  have h1: "PStr url_A \<in> state run_with_A" by (simp add: run_with_A_def)
  have h2: "PStr url_B \<notin> state run_with_A" using ne by (simp add: run_with_A_def)
  note t = skip_already_processed [of url_A run_with_A "example_env [] None []" "[]" url_A url_B
      "\<lparr>state_file = None,
      trace = [Stdout (Downloading url_B), Http_get url_B,
               Stdout (Saved ''drhps/ee0e2464_b-drhp.pdf''),
               Drive_upload ''drhps/ee0e2464_b-drhp.pdf'' ''ee0e2464_b-drhp.pdf'',
               Stdout (Uploaded_to_Drive ''ee0e2464_b-drhp.pdf'')]\<rparr>"]
  from t h1 have a: "process_candidate (example_env [] None []) url_A run_with_A = run_with_A"
    by blast
  from t h1 h2 attempt_B_ok
  have "archive_all (example_env [] None []) [url_A, url_B] run_with_A =
        run_with_A\<lparr>world := emit (Sleep 1) \<lparr>state_file = None,
      trace = [Stdout (Downloading url_B), Http_get url_B,
               Stdout (Saved ''drhps/ee0e2464_b-drhp.pdf''),
               Drive_upload ''drhps/ee0e2464_b-drhp.pdf'' ''ee0e2464_b-drhp.pdf'',
               Stdout (Uploaded_to_Drive ''ee0e2464_b-drhp.pdf'')]\<rparr>,
           state := insert (PStr url_B) (state run_with_A),
          new_count := new_count run_with_A + 1\<rparr>"
    by blast
  then have b: "archive_all (example_env [] None []) [url_A, url_B] run_with_A =
    \<lparr>world = \<lparr>state_file = None,
      trace = [Stdout (Downloading url_B), Http_get url_B,
               Stdout (Saved ''drhps/ee0e2464_b-drhp.pdf''),
               Drive_upload ''drhps/ee0e2464_b-drhp.pdf'' ''ee0e2464_b-drhp.pdf'',
               Stdout (Uploaded_to_Drive ''ee0e2464_b-drhp.pdf''), Sleep 1]\<rparr>,
     state = {PStr url_B, PStr url_A}, new_count = 1\<rparr>"
    by (simp add: run_with_A_def emit_def del: archive_all.simps)
  from h1 h2 attempt_B_ok a b show ?thesis by blast
qed

text \<open>
  Claim C5, as stated, fails: \<open>time.sleep\<close> stands inside the \<open>try\<close> block after the
  upload, so only an archived candidate is followed by the delay. With A in the set
  and every download of B failing, the candidates [A, B, B] are passed without any
  pause: A is skipped, B fails twice, and the trace holds no \<open>Sleep\<close>.
\<close>

theorem delay_counterexample:
  "trace (world (archive_all (example_env [] None [url_B]) [url_A, url_B, url_B] run_with_A)) =
     [Stdout (Downloading url_B), Http_get url_B,
      Stdout (Error_with url_B (Failure ''HTTPError'')),
      Stdout (Downloading url_B), Http_get url_B,
      Stdout (Error_with url_B (Failure ''HTTPError''))]"
  unfolding run_skip_fail_fail by simp

text \<open>
  Claim C5, amended. The delay of one second is the last act of a pass of the loop in
  which the download and the upload succeed, and of no other pass: a candidate that is
  skipped leaves the world as it is, and a candidate that fails ends with the error
  line. So the number of pauses in the loop is the number of candidates archived.
\<close>

theorem delay_after_archived_only:
  "(PStr url \<in> state r \<longrightarrow> world (process_candidate E url r) = world r) \<and>
   (PStr url \<notin> state r \<and> attempt E url (world r) = (w', Inl e) \<longrightarrow>
      trace (world (process_candidate E url r)) = trace w' @ [Stdout (Error_with url e)] \<and>
      count_list (new_events (world r) (world (process_candidate E url r))) (Sleep 1) = 0) \<and>
   (PStr url \<notin> state r \<and> attempt E url (world r) = (w', Inr ()) \<longrightarrow>
      trace (world (process_candidate E url r)) = trace w' @ [Sleep 1] \<and>
      count_list (new_events (world r) (world (process_candidate E url r))) (Sleep 1) = 1) \<and>
   count_list (new_events (world r) (world (archive_all E urls r))) (Sleep 1) + new_count r
     = new_count (archive_all E urls r)"
proof (intro conjI impI)
  assume "PStr url \<in> state r" then show "world (process_candidate E url r) = world r"
    by (simp add: process_candidate_skip)
next
  assume h: "PStr url \<notin> state r \<and> attempt E url (world r) = (w', Inl e)"
  then show "trace (world (process_candidate E url r)) = trace w' @ [Stdout (Error_with url e)]"
    by (simp add: process_candidate_fail emit_def)
next
  assume h: "PStr url \<notin> state r \<and> attempt E url (world r) = (w', Inl e)"
  then have "new_count (process_candidate E url r) = new_count r"
    by (simp add: process_candidate_fail)
  with process_candidate_world [of E url r]
  show "count_list (new_events (world r) (world (process_candidate E url r))) (Sleep 1) = 0"
    by simp
next
  assume h: "PStr url \<notin> state r \<and> attempt E url (world r) = (w', Inr ())"
  then show "trace (world (process_candidate E url r)) = trace w' @ [Sleep 1]"
    by (simp add: process_candidate_ok emit_def)
next
  assume h: "PStr url \<notin> state r \<and> attempt E url (world r) = (w', Inr ())"
  then have "new_count (process_candidate E url r) = new_count r + 1"
    by (simp add: process_candidate_ok)
  with process_candidate_world [of E url r]
  show "count_list (new_events (world r) (world (process_candidate E url r))) (Sleep 1) = 1"
    by simp
next
  show "count_list (new_events (world r) (world (archive_all E urls r))) (Sleep 1) + new_count r
     = new_count (archive_all E urls r)"
    using archive_all_world [of E urls r] by blast
qed

text \<open>
  The amended theorem at a skipped, a failing and an archived candidate.
\<close>

theorem delay_after_archived_only_witness:
  "PStr url_A \<in> state run_with_A \<and>
   world (process_candidate (example_env [] None []) url_A run_with_A) = world run_with_A \<and>
   PStr url_A \<notin> state fresh_run \<and>
   attempt (example_env [] None [url_A]) url_A (world fresh_run) =
     (\<lparr>state_file = None, trace = [Stdout (Downloading url_A), Http_get url_A]\<rparr>,
      Inl (Failure ''HTTPError'')) \<and>
   trace (world (process_candidate (example_env [] None [url_A]) url_A fresh_run)) =
     [Stdout (Downloading url_A), Http_get url_A,
      Stdout (Error_with url_A (Failure ''HTTPError''))] \<and>
   PStr url_B \<notin> state run_with_A \<and>
   attempt (example_env [] None []) url_B (world run_with_A) =
    (\<lparr>state_file = None,
      trace = [Stdout (Downloading url_B), Http_get url_B,
               Stdout (Saved ''drhps/ee0e2464_b-drhp.pdf''),
               Drive_upload ''drhps/ee0e2464_b-drhp.pdf'' ''ee0e2464_b-drhp.pdf'',
               Stdout (Uploaded_to_Drive ''ee0e2464_b-drhp.pdf'')]\<rparr>, Inr ()) \<and>
   trace (world (process_candidate (example_env [] None []) url_B run_with_A)) =
     [Stdout (Downloading url_B), Http_get url_B,
      Stdout (Saved ''drhps/ee0e2464_b-drhp.pdf''),
      Drive_upload ''drhps/ee0e2464_b-drhp.pdf'' ''ee0e2464_b-drhp.pdf'',
      Stdout (Uploaded_to_Drive ''ee0e2464_b-drhp.pdf''), Sleep 1]"
proof -
  have ne: "url_A \<noteq> url_B" by (simp add: url_A_def url_B_def)
  have s1: "PStr url_A \<in> state run_with_A" by (simp add: run_with_A_def)
  have f1: "PStr url_A \<notin> state fresh_run" by (simp add: fresh_run_def)
  have o1: "PStr url_B \<notin> state run_with_A" using ne by (simp add: run_with_A_def)
  note f2 = attempt_A_fails
  note o2 = attempt_B_ok
  from delay_after_archived_only [of url_A run_with_A "example_env [] None []"] s1
  have a: "world (process_candidate (example_env [] None []) url_A run_with_A) = world run_with_A"
    by blast
  from delay_after_archived_only [of url_A fresh_run "example_env [] None [url_A]"
      "\<lparr>state_file = None, trace = [Stdout (Downloading url_A), Http_get url_A]\<rparr>"
      "Failure ''HTTPError''"] f1 f2
  have b: "trace (world (process_candidate (example_env [] None [url_A]) url_A fresh_run)) =
     trace \<lparr>state_file = None, trace = [Stdout (Downloading url_A), Http_get url_A]\<rparr>
       @ [Stdout (Error_with url_A (Failure ''HTTPError''))]"
    by blast
  from delay_after_archived_only [of url_B run_with_A "example_env [] None []"
      "\<lparr>state_file = None,
      trace = [Stdout (Downloading url_B), Http_get url_B,
               Stdout (Saved ''drhps/ee0e2464_b-drhp.pdf''),
               Drive_upload ''drhps/ee0e2464_b-drhp.pdf'' ''ee0e2464_b-drhp.pdf'',
               Stdout (Uploaded_to_Drive ''ee0e2464_b-drhp.pdf'')]\<rparr>"] o1 o2
  have c: "trace (world (process_candidate (example_env [] None []) url_B run_with_A)) =
     trace \<lparr>state_file = None,
      trace = [Stdout (Downloading url_B), Http_get url_B,
               Stdout (Saved ''drhps/ee0e2464_b-drhp.pdf''),
               Drive_upload ''drhps/ee0e2464_b-drhp.pdf'' ''ee0e2464_b-drhp.pdf'',
               Stdout (Uploaded_to_Drive ''ee0e2464_b-drhp.pdf'')]\<rparr> @ [Sleep 1]"
    by blast
  from s1 a f1 f2 b o1 o2 c show ?thesis by simp
qed

subsection \<open>The candidates\<close>

text \<open>
  Claim C2, as stated, fails in two ways. The keywords are looked for in the visible
  text, a space and the \<open>href\<close>: the link with the text \<open>Red\<close> and the file name
  \<open>herring.pdf\<close> is a candidate of the program, since \<open>red herring\<close> occurs across the
  space, while the text immediately followed by the \<open>href\<close> contains no keyword. And
  a link that \<open>urljoin\<close> cannot resolve ends the collection with an exception: on a
  page with such a link before the first document's link, that link satisfies both
  conditions and no candidate is emitted.
\<close>

theorem candidate_selection_counterexample:
  "collect (example_env [] None []) [link_herring] []
     = Inr [''https://www.sebi.gov.in/filings/herring.pdf''] \<and>
   \<not> claimed_candidate (example_env [] None []) link_herring \<and>
   claimed_candidate (example_env [] None []) link_A \<and>
   collect (example_env [] None []) [link_bracket, link_A] [] = Inl ValueError"
  by code_simp

text \<open>
  Claim C2, amended. On a listing page all of whose links \<open>urljoin\<close> resolves, the
  candidates are the resolved URLs of exactly those links whose resolved URL, in
  lower case, ends with \<open>.pdf\<close> or contains \<open>.pdf?\<close>, and whose visible text,
  followed by one space and the raw \<open>href\<close>, contains a keyword in lower case; they
  come in the order of the links on the page. If \<open>urljoin\<close> raises on a link, no
  candidates are produced: the run ends with that exception right after the listing
  page has been fetched.
\<close>

theorem candidate_selection:
  "(list_all (resolves E) anchors \<longrightarrow>
      collect E anchors [] = Inr (map (resolved E) (filter (candidate E) anchors))) \<and>
   (list_all (resolves E) pre \<and> urljoin E SEBI_URL (anchor_href a) = Inl e \<longrightarrow>
      collect E (pre @ a # post) [] = Inl e) \<and>
   (load_state w = Inr st \<and> listing E = Inr anchors \<and> collect E anchors [] = Inl e \<longrightarrow>
      main E w =
        (w\<lparr>trace := trace w @ [Stdout (Loaded_state (card st)), Http_get SEBI_URL]\<rparr>, Inl e))"
proof (intro conjI impI)
  assume "list_all (resolves E) anchors"
  then show "collect E anchors [] = Inr (map (resolved E) (filter (candidate E) anchors))"
    using collect_acc [of E anchors "[]"] by simp
next
  assume "list_all (resolves E) pre \<and> urljoin E SEBI_URL (anchor_href a) = Inl e"
  then show "collect E (pre @ a # post) [] = Inl e" by (simp add: collect_raises)
next
  assume "load_state w = Inr st \<and> listing E = Inr anchors \<and> collect E anchors [] = Inl e"
  then show "main E w =
        (w\<lparr>trace := trace w @ [Stdout (Loaded_state (card st)), Http_get SEBI_URL]\<rparr>, Inl e)"
    by (simp add: main_collect_fails)
qed

text \<open>
  The amended theorem at a page with five links, one for each combination of the two
  conditions and the link of the counterexample, and at a page whose second link
  cannot be resolved.
\<close>

theorem candidate_selection_witness:
  "list_all (resolves (example_env [] None []))
     [link_notes, link_A, link_annual, link_herring, link_B] \<and>
   filter (candidate (example_env [] None []))
     [link_notes, link_A, link_annual, link_herring, link_B] = [link_A, link_herring, link_B] \<and>
   collect (example_env [] None []) [link_notes, link_A, link_annual, link_herring, link_B] []
     = Inr [url_A, ''https://www.sebi.gov.in/filings/herring.pdf'', url_B] \<and>
   list_all (resolves (example_env [link_A, link_bracket, link_B] None [])) [link_A] \<and>
   urljoin (example_env [link_A, link_bracket, link_B] None []) SEBI_URL
     (anchor_href link_bracket) = Inl ValueError \<and>
   collect (example_env [link_A, link_bracket, link_B] None [])
     [link_A, link_bracket, link_B] [] = Inl ValueError \<and>
   load_state fresh_world = Inr {} \<and>
   listing (example_env [link_A, link_bracket, link_B] None [])
     = Inr [link_A, link_bracket, link_B] \<and>
   main (example_env [link_A, link_bracket, link_B] None []) fresh_world =
     (\<lparr>state_file = None, trace = [Stdout (Loaded_state 0), Http_get SEBI_URL]\<rparr>,
      Inl ValueError)"
proof -
  let ?E = "example_env [] None []"
  let ?F = "example_env [link_A, link_bracket, link_B] None []"
  have r: "list_all (resolves ?E) [link_notes, link_A, link_annual, link_herring, link_B]"
    by code_simp
  have f: "filter (candidate ?E) [link_notes, link_A, link_annual, link_herring, link_B]
     = [link_A, link_herring, link_B]"
    by code_simp
  have m: "map (resolved ?E) [link_A, link_herring, link_B]
     = [url_A, ''https://www.sebi.gov.in/filings/herring.pdf'', url_B]"
    by code_simp
  from candidate_selection [of ?E "[link_notes, link_A, link_annual, link_herring, link_B]"] r
  have "collect ?E [link_notes, link_A, link_annual, link_herring, link_B] []
     = Inr (map (resolved ?E)
         (filter (candidate ?E) [link_notes, link_A, link_annual, link_herring, link_B]))"
    by blast
  then have c: "collect ?E [link_notes, link_A, link_annual, link_herring, link_B] []
     = Inr [url_A, ''https://www.sebi.gov.in/filings/herring.pdf'', url_B]"
    unfolding f m .
  have p: "list_all (resolves ?F) [link_A]" by code_simp
  have u: "urljoin ?F SEBI_URL (anchor_href link_bracket) = Inl ValueError" by code_simp
  note t = candidate_selection [of ?F "[link_A, link_bracket, link_B]" "[link_A]" link_bracket
      ValueError "[link_B]" fresh_world "{}"]
  from t p u have "collect ?F ([link_A] @ link_bracket # [link_B]) [] = Inl ValueError" by blast
  then have k: "collect ?F [link_A, link_bracket, link_B] [] = Inl ValueError"
    by (simp del: collect.simps)
  have l: "load_state fresh_world = Inr {}" by (simp add: load_state_def fresh_world_def)
  have g: "listing ?F = Inr [link_A, link_bracket, link_B]" by (simp add: example_env_def)
  from t l g k have "main ?F fresh_world =
     (fresh_world\<lparr>trace := trace fresh_world @
        [Stdout (Loaded_state (card ({} :: pyatom set))), Http_get SEBI_URL]\<rparr>, Inl ValueError)"
    by blast
  then have n: "main ?F fresh_world =
     (\<lparr>state_file = None, trace = [Stdout (Loaded_state 0), Http_get SEBI_URL]\<rparr>,
      Inl ValueError)"
    by (simp add: fresh_world_def)
  from r f c p u k l g n show ?thesis by blast
qed

end
